theory Spec2Isabelle
  imports Complex_Main "HOL-Library.Log_Nat"
begin

section \<open>NumPy arrays and the global random generator\<close>

text \<open>
  A two-dimensional coordinate array of shape \<open>(N, D)\<close> is a record of its column count
  and its rows; \<open>wf_array\<close> says that every row has \<open>D\<close> entries.  The selection
  callbacks subtract and compare coordinates; there the entries are real numbers.  The
  histogram of the kernel density notebook divides and multiplies, and is modelled in
  binary64 arithmetic further down.
\<close>

datatype py_error = IndexError

record ndarray2 =
  ncols :: nat
  rows :: "real list list"

definition wf_array :: "ndarray2 \<Rightarrow> bool" where
  "wf_array A \<longleftrightarrow> list_all (\<lambda>r. length r = ncols A) (rows A)"

text \<open>\<open>coords[:,0]\<close>: the first column; an array with no column raises IndexError.\<close>

definition column0 :: "ndarray2 \<Rightarrow> py_error + real list" where
  "column0 A = (if ncols A = 0 then Inl IndexError else Inr (map (\<lambda>r. r ! 0) (rows A)))"

text \<open>
  \<open>np.random.rand(n)\<close> reads the process-wide generator: it returns the next \<open>n\<close>
  draws (each in \<open>[0, 1)\<close>) and advances the generator.  The generator state is the
  sequence of its pending draws, threaded explicitly.
\<close>

type_synonym rng = "nat \<Rightarrow> real"

definition rand :: "nat \<Rightarrow> rng \<Rightarrow> real list \<times> rng" where
  "rand n g = (map g [0..<n], (\<lambda>i. g (n + i)))"

section \<open>Gaussian mixture notebook: selection and noise callbacks\<close>

definition z_cl :: real where
  "z_cl = 35 / 100"


text \<open>\<open>zrange(coords) = (coords[:,0] >= 0) & (coords[:,0] <= 1)\<close>\<close>

definition zrange :: "ndarray2 \<Rightarrow> py_error + bool list" where
  "zrange coords =
     (case column0 coords of
        Inl e \<Rightarrow> Inl e
      | Inr c \<Rightarrow> Inr (map2 (\<and>) (map (\<lambda>z. z \<ge> 0) c) (map (\<lambda>z. z \<le> 1) c)))"

text \<open>
  \<open>ramp(coords) = coords[:,0] - z_cl < np.random.rand(len(coords)) * (1-z_cl)\<close>.
  The left operand is evaluated first, so a failing column read leaves the generator
  untouched.
\<close>

definition ramp :: "ndarray2 \<Rightarrow> rng \<Rightarrow> (py_error + bool list) \<times> rng" where
  "ramp coords g =
     (case column0 coords of
        Inl e \<Rightarrow> (Inl e, g)
      | Inr c \<Rightarrow>
          (case rand (length (rows coords)) g of
             (u, g') \<Rightarrow>
               (Inr (map2 (\<lambda>z r. z - z_cl < r * (1 - z_cl)) c u), g')))"

text \<open>\<open>ramp_range(coords) = ramp(coords) & zrange(coords)\<close>\<close>

definition ramp_range :: "ndarray2 \<Rightarrow> rng \<Rightarrow> (py_error + bool list) \<times> rng" where
  "ramp_range coords g =
     (case ramp coords g of
        (Inl e, g') \<Rightarrow> (Inl e, g')
      | (Inr a, g') \<Rightarrow>
          (case zrange coords of
             Inl e \<Rightarrow> (Inl e, g')
           | Inr b \<Rightarrow> (Inr (map2 (\<and>) a b), g')))"










section \<open>Binary64 arithmetic\<close>
















section \<open>Kernel density notebook: the point-centred histogram\<close>




section \<open>Concrete inputs\<close>

text \<open>A generator whose first draw is 0.9 and whose later draws are 0.1.\<close>

definition draws_high_then_low :: rng where
  "draws_high_then_low i = (if i = 0 then 9 / 10 else 1 / 10)"


definition two_samples :: ndarray2 where
  "two_samples = \<lparr>ncols = 1, rows = [[3 / 2], [1 / 2]]\<rparr>"




section \<open>Properties of the selection callbacks\<close>

lemma column0_Inr:
  "0 < ncols A \<Longrightarrow> column0 A = Inr (map (\<lambda>r. r ! 0) (rows A))"
  by (simp add: column0_def)

lemma ramp_range_Inr:
  assumes "0 < ncols coords"
  shows "fst (ramp_range coords g) =
           Inr (map (\<lambda>i. (rows coords ! i ! 0 - z_cl < g i * (1 - z_cl)) \<and>
                          (rows coords ! i ! 0 \<ge> 0 \<and> rows coords ! i ! 0 \<le> 1))
                    [0..<length (rows coords)])"
  using assms
  by (auto simp add: ramp_range_def ramp_def zrange_def rand_def column0_Inr
      intro!: nth_equalityI)

text \<open>
  C9.  On every coordinate array with at least one column, \<open>ramp_range\<close> returns a
  boolean array with one entry per row, and the entry is False at every row whose first
  coordinate is below 0 or above 1, whatever the generator draws.
\<close>

theorem ramp_range_rejects_outside_unit_interval:
  assumes "wf_array coords" and "0 < ncols coords"
  shows "\<exists>sel. fst (ramp_range coords g) = Inr sel \<and> length sel = length (rows coords) \<and>
           (\<forall>i < length (rows coords).
              rows coords ! i ! 0 < 0 \<or> 1 < rows coords ! i ! 0 \<longrightarrow> sel ! i = False)"
  using ramp_range_Inr [OF assms(2), of g] by auto

theorem ramp_range_rejects_outside_unit_interval_witness:
  "wf_array two_samples \<and> 0 < ncols two_samples \<and>
   (\<exists>sel. fst (ramp_range two_samples draws_high_then_low) = Inr sel \<and>
      length sel = 2 \<and> sel ! 0 = False)"
proof -
  have wf: "wf_array two_samples" and cols: "0 < ncols two_samples"
    by (simp_all add: wf_array_def two_samples_def)
  have outside: "rows two_samples ! 0 ! 0 < 0 \<or> 1 < rows two_samples ! 0 ! 0"
    by (simp add: two_samples_def)
  have len: "length (rows two_samples) = 2"
    by (simp add: two_samples_def)
  from ramp_range_rejects_outside_unit_interval [OF wf cols, of draws_high_then_low]
  obtain sel where "fst (ramp_range two_samples draws_high_then_low) = Inr sel"
    and "length sel = length (rows two_samples)"
    and "\<forall>i < length (rows two_samples).
           rows two_samples ! i ! 0 < 0 \<or> 1 < rows two_samples ! i ! 0 \<longrightarrow> sel ! i = False"
    by blast
  with outside len wf cols show ?thesis
    by auto
qed










section \<open>Properties of binary64 rounding\<close>




































section \<open>Properties of the point-centred histogram\<close>










end
